theory Spec2Isabelle
  imports Main "HOL-Library.Word" "HOL-Library.Multiset"
begin

section \<open>Records, digests and Python exceptions\<close>

text \<open>
  A record is an opaque byte string (Python \<open>bytes\<close>); iterating over it yields the
  integers 0..255.  The digest functions come from \<open>hashlib\<close>, which is not part of the
  repository: they are parameters of every definition that hashes.
  \<open>blake2b n x\<close> stands for \<open>hashlib.blake2b(x, digest_size=n).digest()\<close> and
  \<open>sha1 x\<close> for the digest of \<open>hashlib.sha1()\<close> after \<open>update(x)\<close>.
\<close>

type_synonym bytes = "8 word list"

datatype error =
    AssertionError string
  | ValueError string
  | ZeroDivisionError
  | AttributeError
  | TypeError
  | SystemExit

section \<open>The hash bucketer: \<open>partition\<close>\<close>

text \<open>
  The loop of \<open>determine_hash\<close>:
  \<^verbatim>\<open>address = 0
for i, b in enumerate(m.digest()):
  address += b * (2 ** (i * 8))\<close>
  Python integers are unbounded, so the address is an \<open>int\<close>.
\<close>

fun determine_hash_loop :: "int \<Rightarrow> (nat \<times> 8 word) list \<Rightarrow> int" where
  "determine_hash_loop address [] = address"
| "determine_hash_loop address ((i, b) # rest) =
     determine_hash_loop (address + uint b * 2 ^ (i * 8)) rest"

definition determine_hash :: "(nat \<Rightarrow> bytes \<Rightarrow> bytes) \<Rightarrow> bytes \<Rightarrow> int" where
  "determine_hash blake2b input_bytes =
     determine_hash_loop 0 (enumerate 0 (blake2b 4 input_bytes))"

text \<open>
  \<open>bucket = address % num_buckets\<close>: Python's \<open>%\<close> raises on a zero divisor and
  otherwise takes the sign of the divisor, as \<open>mod\<close> on \<open>int\<close> does.
\<close>

definition partition_py :: "(nat \<Rightarrow> bytes \<Rightarrow> bytes) \<Rightarrow> bytes \<Rightarrow> int \<Rightarrow> error + int" where
  "partition_py blake2b example num_buckets =
     (let address = determine_hash blake2b example
      in if num_buckets = 0 then Inl ZeroDivisionError
         else Inr (address mod num_buckets))"

text \<open>
  The specification's reading of a digest: the bytes as a little-endian unsigned
  integer, byte \<open>i\<close> weighing \<open>256 ^ i\<close>.
\<close>

definition little_endian_uint :: "bytes \<Rightarrow> int" where
  "little_endian_uint bs = (\<Sum>i<length bs. uint (bs ! i) * 256 ^ i)"

text \<open>A toy digest for concrete evaluation: the first \<open>n\<close> bytes, zero padded.\<close>

definition toy_digest :: "nat \<Rightarrow> bytes \<Rightarrow> bytes" where
  "toy_digest n x = take n (x @ replicate n 0)"

section \<open>Python strings and formatting\<close>

text \<open>
  \<open>str(n)\<close> and \<open>"%d" % n\<close> for a non-negative integer: its decimal digits.
\<close>

function str_nat :: "nat \<Rightarrow> string" where
  "str_nat n =
     (if n < 10 then [char_of (48 + n)]
      else str_nat (n div 10) @ [char_of (48 + n mod 10)])"
  by pat_completeness auto
termination
  by (relation "measure (\<lambda>n. n)") auto

declare str_nat.simps [simp del]

text \<open>\<open>"%0kd" % n\<close>: the decimal digits, padded with zeros on the left to width \<open>k\<close>.\<close>

definition zero_pad :: "nat \<Rightarrow> nat \<Rightarrow> string" where
  "zero_pad k n = replicate (k - length (str_nat n)) CHR ''0'' @ str_nat n"

text \<open>\<open>s.split(sep)\<close> for a one-character separator: never the empty list.\<close>

fun split_on :: "char \<Rightarrow> string \<Rightarrow> string list" where
  "split_on sep [] = [[]]"
| "split_on sep (c # cs) =
     (if c = sep then [] # split_on sep cs
      else (case split_on sep cs of
              [] \<Rightarrow> [[c]]
            | l # ls \<Rightarrow> (c # l) # ls))"

text \<open>\<open>sep.join(parts)\<close>.\<close>

fun join_with :: "string \<Rightarrow> string list \<Rightarrow> string" where
  "join_with sep [] = []"
| "join_with sep [l] = l"
| "join_with sep (l # m # ls) = l @ sep @ join_with sep (m # ls)"

text \<open>
  \<open>"{}".format(x)\<close> for an argument that is a string or \<open>None\<close>, and Python's
  truth value of such an argument (\<open>None\<close> and the empty string are false).
\<close>

fun format_arg :: "string option \<Rightarrow> string" where
  "format_arg None = ''None''"
| "format_arg (Some s) = s"

fun truthy :: "string option \<Rightarrow> bool" where
  "truthy None = False"
| "truthy (Some s) = (s \<noteq> [])"

text \<open>
  \<open>os.path.join(a, b)\<close> on a POSIX system, for two components.
\<close>

definition os_path_join :: "string \<Rightarrow> string \<Rightarrow> string" where
  "os_path_join a b =
     (if b \<noteq> [] \<and> hd b = CHR ''/'' then b
      else if a = [] \<or> last a = CHR ''/'' then a @ b
      else a @ ''/'' @ b)"

subsection \<open>\<open>textwrap.dedent\<close>\<close>

text \<open>
  The standard library's \<open>textwrap.dedent\<close>, as CPython implements it: lines that
  consist of blanks and tabs only become empty; the margin is the longest common
  leading run of blanks and tabs of the remaining non-empty lines (computed by the
  library's loop over the indents); a non-empty margin is removed from the start of
  every line that begins with it.
\<close>

definition is_blank_or_tab :: "char \<Rightarrow> bool" where
  "is_blank_or_tab c = (c = CHR '' '' \<or> c = CHR 0x09)"

fun common_prefix :: "string \<Rightarrow> string \<Rightarrow> string" where
  "common_prefix (x # xs) (y # ys) = (if x = y then x # common_prefix xs ys else [])"
| "common_prefix _ _ = []"

fun starts_with :: "string \<Rightarrow> string \<Rightarrow> bool" where
  "starts_with s [] = True"
| "starts_with [] (p # ps) = False"
| "starts_with (c # cs) (p # ps) = (c = p \<and> starts_with cs ps)"

fun dedent_margin :: "string option \<Rightarrow> string list \<Rightarrow> string option" where
  "dedent_margin margin [] = margin"
| "dedent_margin None (indent # rest) = dedent_margin (Some indent) rest"
| "dedent_margin (Some margin) (indent # rest) =
     (if starts_with indent margin then dedent_margin (Some margin) rest
      else if starts_with margin indent then dedent_margin (Some indent) rest
      else dedent_margin (Some (common_prefix margin indent)) rest)"

definition dedent :: "string \<Rightarrow> string" where
  "dedent txt =
     (let lines1 = map (\<lambda>l. if list_all is_blank_or_tab l then [] else l)
                       (split_on CHR 0x0A txt);
          indents = map (takeWhile is_blank_or_tab) (filter (\<lambda>l. l \<noteq> []) lines1);
          margin = dedent_margin None indents
      in if truthy margin
         then join_with [CHR 0x0A]
                (map (\<lambda>l. if starts_with l (format_arg margin)
                           then drop (length (format_arg margin)) l else l) lines1)
         else join_with [CHR 0x0A] lines1)"

section \<open>The file system and the collaborators outside the repository\<close>

text \<open>
  A file system is an association list from paths to nodes, in directory-listing
  order.  A TFRecord file holds a list of records; a text file holds the elements
  written to it, one per line.  Operating-system failures (permissions, full disks)
  are outside the model.
\<close>

datatype node = Directory | TFRecordFile "bytes list" | TextFile "string list"

type_synonym fs = "(string \<times> node) list"

definition os_path_exists :: "fs \<Rightarrow> string \<Rightarrow> bool" where
  "os_path_exists fs path = (path \<in> set (map fst fs))"

definition os_remove :: "string \<Rightarrow> fs \<Rightarrow> fs" where
  "os_remove path fs = filter (\<lambda>entry. fst entry \<noteq> path) fs"

definition write_node :: "string \<times> node \<Rightarrow> fs \<Rightarrow> fs" where
  "write_node entry fs = os_remove (fst entry) fs @ [entry]"

definition os_makedirs :: "fs \<Rightarrow> string \<Rightarrow> fs" where
  "os_makedirs fs path = write_node (path, Directory) fs"

fun node_records :: "node \<Rightarrow> bytes list" where
  "node_records (TFRecordFile rs) = rs"
| "node_records _ = []"

text \<open>
  The environment gathers what the program takes from outside the repository:
  \<open>hashlib\<close>'s digests, \<open>argparse\<close>'s \<open>parse_known_args\<close> (the namespace it returns
  is the record \<open>known_args\<close> below, or the parser exits), the file-name matching
  of \<open>glob\<close> (\<open>fnmatch env pattern name\<close>), and the two choices the dataflow runner
  makes: the order in which a grouping emits its groups (a list of choices, see
  \<open>permute\<close>) and the number of shards a sink writes.
\<close>

record known_args =
  arg_input_pattern_list :: "string option"
  arg_output_pattern_prefix :: "string option"
  arg_output_dataset_config_pbtxt :: "string option"
  arg_output_dataset_name :: "string option"
  arg_num_buckets :: int
  arg_pre_partition :: bool
  arg_pre_partition_workdir :: "string option"
  arg_debug :: bool

record env =
  hashlib_blake2b :: "nat \<Rightarrow> bytes \<Rightarrow> bytes"
  hashlib_sha1 :: "bytes \<Rightarrow> bytes"
  parse_known_args :: "string list \<Rightarrow> error + (known_args \<times> string list)"
  fnmatch :: "string \<Rightarrow> string \<Rightarrow> bool"
  group_order :: "nat list"
  num_shards :: nat

definition glob :: "env \<Rightarrow> fs \<Rightarrow> string \<Rightarrow> string list" where
  "glob env fs pattern = filter (fnmatch env pattern) (map fst fs)"

section \<open>The dataflow substrate\<close>

text \<open>
  Modelled from the spec: the dataflow substrate (Apache Beam), which is not part of
  the repository.  The specification lists its primitives: parallel read of the
  record files matching a pattern, a per-record transform, key-based grouping of the
  values sharing a key, flattening of several collections into one, partitioning of a
  collection by a classifier, a global count, a global concatenation, and writing a
  collection as a family of shard files \<open>prefix-SSSSS-of-NNNNN\<close> plus suffix.

  The program does not compute on records itself: it applies labelled transforms to
  collections, and the pipeline runs when its \<open>with\<close> block is left.  A collection is
  therefore a pair: the labelled transforms applied to obtain it, and the elements it
  holds once the pipeline runs on a file system, in the order of emission.  The order
  in which a grouping emits its groups is the runner's choice (\<open>group_order\<close>); the
  values of a group keep their order of arrival; flattening and the global
  concatenation keep the order of their arguments.  Worker and I/O failures are outside
  the model.
\<close>

datatype xform =
    ReadFromTFRecord string
  | Create
  | Flatten
  | Map
  | FlatMap
  | GroupByKey
  | Partition int
  | CountGlobally
  | CombineGlobally
  | WriteToTFRecord string string
  | WriteToText string

type_synonym step = "string \<times> xform"

record 'a pcoll =
  steps :: "step list"
  elements :: "fs \<Rightarrow> 'a list"

record sink =
  sink_steps :: "step list"
  sink_output :: "fs \<Rightarrow> (string \<times> node) list"

text \<open>
  The runner's choice of an order: each choice picks, modulo the number of elements
  left, the element emitted next; when the choices run out the rest is emitted as it
  stands.
\<close>

fun permute :: "nat list \<Rightarrow> 'a list \<Rightarrow> 'a list" where
  "permute [] xs = xs"
| "permute (c # cs) [] = []"
| "permute (c # cs) (x # xs) =
     (let i = c mod length (x # xs)
      in (x # xs) ! i # permute cs (take i (x # xs) @ drop (Suc i) (x # xs)))"

definition beam_ReadFromTFRecord :: "env \<Rightarrow> string \<Rightarrow> string \<Rightarrow> bytes pcoll" where
  "beam_ReadFromTFRecord env label file_pattern =
     \<lparr>steps = [(label, ReadFromTFRecord file_pattern)],
      elements = (\<lambda>fs. concat (map (\<lambda>entry. node_records (snd entry))
                    (filter (\<lambda>entry. fnmatch env file_pattern (fst entry)) fs)))\<rparr>"

definition beam_Create :: "string \<Rightarrow> 'a list \<Rightarrow> 'a pcoll" where
  "beam_Create label xs = \<lparr>steps = [(label, Create)], elements = (\<lambda>fs. xs)\<rparr>"

definition beam_Flatten :: "string \<Rightarrow> 'a pcoll list \<Rightarrow> 'a pcoll" where
  "beam_Flatten label ps =
     \<lparr>steps = concat (map steps ps) @ [(label, Flatten)],
      elements = (\<lambda>fs. concat (map (\<lambda>p. elements p fs) ps))\<rparr>"

definition beam_Map :: "string \<Rightarrow> ('a \<Rightarrow> 'b) \<Rightarrow> 'a pcoll \<Rightarrow> 'b pcoll" where
  "beam_Map label f p =
     \<lparr>steps = steps p @ [(label, Map)],
      elements = (\<lambda>fs. map f (elements p fs))\<rparr>"

definition beam_FlatMap :: "string \<Rightarrow> ('a \<Rightarrow> 'b list) \<Rightarrow> 'a pcoll \<Rightarrow> 'b pcoll" where
  "beam_FlatMap label f p =
     \<lparr>steps = steps p @ [(label, FlatMap)],
      elements = (\<lambda>fs. concat (map f (elements p fs)))\<rparr>"

definition group_values :: "('k \<times> 'v) list \<Rightarrow> 'k \<Rightarrow> 'v list" where
  "group_values kvs k = map snd (filter (\<lambda>kv. fst kv = k) kvs)"

definition beam_GroupByKey :: "env \<Rightarrow> string \<Rightarrow> ('k \<times> 'v) pcoll \<Rightarrow> ('k \<times> 'v list) pcoll" where
  "beam_GroupByKey env label p =
     \<lparr>steps = steps p @ [(label, GroupByKey)],
      elements = (\<lambda>fs. permute (group_order env)
                    (map (\<lambda>k. (k, group_values (elements p fs) k))
                         (remdups (map fst (elements p fs)))))\<rparr>"

text \<open>
  \<open>beam.Partition(fn, n)\<close> yields \<open>n\<close> collections (none when \<open>n \<le> 0\<close>); an element
  \<open>x\<close> goes to the collection numbered \<open>fn(x, n)\<close>.
\<close>

definition beam_Partition ::
  "string \<Rightarrow> ('a \<Rightarrow> int \<Rightarrow> error + int) \<Rightarrow> int \<Rightarrow> 'a pcoll \<Rightarrow> 'a pcoll list" where
  "beam_Partition label fn n p =
     map (\<lambda>i. \<lparr>steps = steps p @ [(label, Partition n)],
                elements = (\<lambda>fs. filter (\<lambda>x. fn x n = Inr (int i)) (elements p fs))\<rparr>)
         [0..<nat n]"

definition beam_Count_Globally :: "string \<Rightarrow> 'a pcoll \<Rightarrow> nat pcoll" where
  "beam_Count_Globally label p =
     \<lparr>steps = steps p @ [(label, CountGlobally)],
      elements = (\<lambda>fs. [length (elements p fs)])\<rparr>"

definition beam_CombineGlobally :: "string \<Rightarrow> ('a list \<Rightarrow> 'b) \<Rightarrow> 'a pcoll \<Rightarrow> 'b pcoll" where
  "beam_CombineGlobally label f p =
     \<lparr>steps = steps p @ [(label, CombineGlobally)],
      elements = (\<lambda>fs. [f (elements p fs)])\<rparr>"

text \<open>
  A sink writes at least one shard; the runner chooses how many (\<open>num_shards\<close>), and
  the elements go to the shards in turn.  Shard \<open>j\<close> of \<open>n\<close> is named with the default
  template \<open>-SSSSS-of-NNNNN\<close>.
\<close>

definition shard_name :: "string \<Rightarrow> nat \<Rightarrow> nat \<Rightarrow> string \<Rightarrow> string" where
  "shard_name file_path_prefix j n file_name_suffix =
     file_path_prefix @ ''-'' @ zero_pad 5 j @ ''-of-'' @ zero_pad 5 n @ file_name_suffix"

definition shard_elements :: "nat \<Rightarrow> nat \<Rightarrow> 'a list \<Rightarrow> 'a list" where
  "shard_elements n j xs = map snd (filter (\<lambda>ix. fst ix mod n = j) (enumerate 0 xs))"

definition beam_WriteToTFRecord ::
  "env \<Rightarrow> string \<Rightarrow> string \<Rightarrow> string \<Rightarrow> bytes pcoll \<Rightarrow> sink" where
  "beam_WriteToTFRecord env label file_path_prefix file_name_suffix p =
     \<lparr>sink_steps = steps p @ [(label, WriteToTFRecord file_path_prefix file_name_suffix)],
      sink_output = (\<lambda>fs.
        let n = max 1 (num_shards env)
        in map (\<lambda>j. (shard_name file_path_prefix j n file_name_suffix,
                      TFRecordFile (shard_elements n j (elements p fs))))
               [0..<n])\<rparr>"

text \<open>\<open>WriteToText(name, shard_name_template='')\<close>: one unsharded text file.\<close>

definition beam_WriteToText :: "string \<Rightarrow> string \<Rightarrow> string pcoll \<Rightarrow> sink" where
  "beam_WriteToText label file_path_prefix p =
     \<lparr>sink_steps = steps p @ [(label, WriteToText file_path_prefix)],
      sink_output = (\<lambda>fs. [(file_path_prefix, TextFile (elements p fs))])\<rparr>"

text \<open>
  The state of a run of the program: the file system and the pipelines executed so
  far, each recorded by the labelled transforms applied in it.  Leaving a \<open>with beam.Pipeline\<close>
  block without an exception runs the pipeline: every sink reads the file system as
  it stands and the files are written.
\<close>

record world =
  files :: fs
  runs :: "step list list"

definition run_pipeline :: "sink list \<Rightarrow> world \<Rightarrow> world" where
  "run_pipeline sinks w =
     \<lparr>files = fold write_node (concat (map (\<lambda>s. sink_output s (files w)) sinks)) (files w),
      runs = runs w @ [remdups (concat (map sink_steps sinks))]\<rparr>"

section \<open>The program\<close>

subsection \<open>\<open>parse_cmdline\<close>\<close>

text \<open>
  \<open>argparse\<close> turns the command line into the namespace \<open>known_args\<close> and the
  remaining pipeline arguments; the function then checks the two assertions that
  guard pre-partitioning.
\<close>

definition parse_cmdline :: "env \<Rightarrow> string list \<Rightarrow> error + (known_args \<times> string list)" where
  "parse_cmdline env argv =
     (case parse_known_args env argv of
        Inl e \<Rightarrow> Inl e
      | Inr (known_args, pipeline_args) \<Rightarrow>
          if arg_pre_partition known_args
          then (if arg_pre_partition_workdir known_args = None
                then Inl (AssertionError ''Provide working directory for pre-partition'')
                else if \<not> (arg_num_buckets known_args > 0)
                then Inl (AssertionError
                       ''Minimum of one bucket should be provided for pre-partition'')
                else Inr (known_args, pipeline_args))
          else Inr (known_args, pipeline_args))"

subsection \<open>\<open>read_from_tfrecords_files\<close> and \<open>shuffle_records\<close>\<close>

definition read_from_tfrecords_files :: "env \<Rightarrow> string list \<Rightarrow> bytes pcoll" where
  "read_from_tfrecords_files env input_filename_pattern_list =
     (let readers =
            map (\<lambda>(i, filepattern).
                   beam_ReadFromTFRecord env
                     (''ReadTFRecordFiles_'' @ str_nat i @ ''['' @ filepattern @ '']'')
                     filepattern)
                (enumerate 0 input_filename_pattern_list);
          all_readers = beam_Flatten ''Flatten'' readers
      in all_readers)"

definition shuffle_records :: "env \<Rightarrow> bytes pcoll \<Rightarrow> bytes pcoll" where
  "shuffle_records env input_examples =
     beam_FlatMap ''DropKey'' (\<lambda>x. snd x)
       (beam_GroupByKey env ''Groupby''
          (beam_Map ''Randomize'' (\<lambda>x. (hashlib_sha1 env x, x)) input_examples))"

subsection \<open>\<open>pre_partition\<close>\<close>

definition pre_partition ::
  "env \<Rightarrow> string list \<Rightarrow> string \<Rightarrow> string list \<Rightarrow> int \<Rightarrow> world
     \<Rightarrow> (error + string list) \<times> world" where
  "pre_partition env input_pattern working_directory pipeline_args num_buckets w =
     (if os_path_exists (files w) working_directory
      then (Inl (ValueError ''Provide a clean working directory path directory''), w)
      else
        let w1 = w\<lparr>files := os_makedirs (files w) working_directory\<rparr>;
            input_data = read_from_tfrecords_files env input_pattern;
            partitions =
              beam_Partition ''PrePartition'' (partition_py (hashlib_blake2b env))
                num_buckets input_data;
            writes =
              map (\<lambda>(i, p).
                     beam_WriteToTFRecord env (''WritePartition'' @ str_nat i)
                       (os_path_join working_directory (''partition'' @ zero_pad 4 i))
                       ''.tfrecord.gz'' p)
                  (enumerate 0 partitions);
            w2 = run_pipeline writes w1;
            filenames =
              glob env (files w2)
                (os_path_join working_directory ''partition????-00000-of-00001.tfrecord.gz'')
        in (Inr filenames, w2))"

subsection \<open>The manifest: \<open>MakeConfigStringCaller\<close> and \<open>write_summary_string_to_file\<close>\<close>

definition COMMENT_HEADER_format :: "string option \<Rightarrow> string option \<Rightarrow> string" where
  \<open>COMMENT_HEADER_format input_pattern_list output_pattern_prefix =
     ''# Generated by shuffle_tfrecords_beam.py\<newline>#\<newline># --input_pattern_list=''
     @ format_arg input_pattern_list
     @ ''\<newline># --output_pattern_prefix=''
     @ format_arg output_pattern_prefix
     @ ''\<newline>#\<newline>''\<close>

definition MakeConfigStringCaller :: "string option \<Rightarrow> string option \<Rightarrow> nat \<Rightarrow> string" where
  \<open>MakeConfigStringCaller name tfrecord_path num_examples =
     dedent (''\<newline>    name: "'' @ format_arg name
             @ ''"\<newline>    tfrecord_path: "'' @ format_arg tfrecord_path
             @ ''-?????-of-?????.tfrecord.gz"\<newline>    num_examples: ''
             @ str_nat num_examples
             @ ''\<newline>    '')\<close>

definition write_summary_string_to_file ::
  "bytes pcoll \<Rightarrow> string option \<Rightarrow> string option \<Rightarrow> string option \<Rightarrow> string \<Rightarrow> sink" where
  "write_summary_string_to_file output_examples input_pattern_list dataset_name
       output_pattern_prefix output_filename =
     (let comment_str =
            beam_Create ''CreateFileHeader''
              [COMMENT_HEADER_format input_pattern_list output_pattern_prefix];
          num_examples = beam_Count_Globally ''CountOutputExamples'' output_examples;
          config_str =
            beam_Map ''MakeConfigStr''
              (MakeConfigStringCaller dataset_name output_pattern_prefix) num_examples;
          merged_strings = beam_Flatten ''FlattenStrs'' [comment_str, config_str]
      in beam_WriteToText ''WriteToFile'' output_filename
           (beam_CombineGlobally ''Concat2'' concat merged_strings))"

subsection \<open>\<open>main\<close>\<close>

text \<open>
  Setting the logging level has no effect on files or pipelines and is left out.

  The block \<open># Prepartition files\<close>.  Without pre-partitioning the list holds the
  flag value itself, which is \<open>None\<close> when the flag was not given; with it,
  \<open>known_args.input_pattern_list.split(",")\<close> raises on \<open>None\<close>, and so would
  \<open>os.path.exists\<close> on a working directory that is \<open>None\<close> (which
  \<open>parse_cmdline\<close> has excluded).
\<close>

definition prepartition_files ::
  "env \<Rightarrow> known_args \<Rightarrow> string list \<Rightarrow> world \<Rightarrow> (error + string option list) \<times> world" where
  "prepartition_files env known_args pipeline_args w =
     (if arg_pre_partition known_args
      then (case arg_input_pattern_list known_args of
              None \<Rightarrow> (Inl AttributeError, w)
            | Some input_pattern_list \<Rightarrow>
                (case arg_pre_partition_workdir known_args of
                   None \<Rightarrow> (Inl TypeError, w)
                 | Some workdir \<Rightarrow>
                     (case pre_partition env (split_on CHR '','' input_pattern_list) workdir
                             pipeline_args (arg_num_buckets known_args) w of
                        (Inl e, w') \<Rightarrow> (Inl e, w')
                      | (Inr filenames, w') \<Rightarrow> (Inr (map Some filenames), w'))))
      else (Inr [arg_input_pattern_list known_args], w))"

text \<open>
  The loop \<open># Shuffle each partition\<close>: one pipeline per input file.  An exception
  raised inside the \<open>with\<close> block leaves it before the pipeline runs.
\<close>

fun shuffle_each_partition ::
  "env \<Rightarrow> known_args \<Rightarrow> (nat \<times> string option) list \<Rightarrow> string list \<Rightarrow> world
     \<Rightarrow> (error + string list) \<times> world" where
  "shuffle_each_partition env known_args [] output_patterns w = (Inr output_patterns, w)"
| "shuffle_each_partition env known_args ((i, filename) # rest) output_patterns w =
     (case filename of
        None \<Rightarrow> (Inl AttributeError, w)
      | Some fname \<Rightarrow>
          let input_examples = read_from_tfrecords_files env (split_on CHR '','' fname);
              output_examples = shuffle_records env input_examples
          in (case arg_output_pattern_prefix known_args of
                None \<Rightarrow> (Inl TypeError, w)
              | Some prefix \<Rightarrow>
                  let output_pattern_prefix = prefix @ ''_partition'' @ str_nat i;
                      output_patterns' =
                        output_patterns @ [output_pattern_prefix @ ''-?????-of-?????.tfrecord.gz''];
                      w' = run_pipeline
                             [beam_WriteToTFRecord env ''WriteToTFRecord'' output_pattern_prefix
                                ''.tfrecord.gz'' output_examples] w
                  in shuffle_each_partition env known_args rest output_patterns' w'))"

text \<open>
  The block \<open># Combine shuffled partitions into a single set of output files\<close>,
  with the optional manifest.  The sink refuses a prefix that is not a string.
\<close>

definition combine_shuffled_partitions ::
  "env \<Rightarrow> known_args \<Rightarrow> string list \<Rightarrow> world \<Rightarrow> (error + unit) \<times> world" where
  "combine_shuffled_partitions env known_args output_patterns w =
     (let output_examples = read_from_tfrecords_files env output_patterns
      in (case arg_output_pattern_prefix known_args of
            None \<Rightarrow> (Inl TypeError, w)
          | Some prefix \<Rightarrow>
              let write_outputs =
                    beam_WriteToTFRecord env ''WriteOutputs'' prefix ''.tfrecord.gz''
                      output_examples
              in (case arg_output_dataset_config_pbtxt known_args of
                    None \<Rightarrow> (Inr (), run_pipeline [write_outputs] w)
                  | Some output_filename \<Rightarrow>
                      if output_filename = [] then (Inr (), run_pipeline [write_outputs] w)
                      else if \<not> truthy (arg_output_dataset_name known_args)
                      then (Inl (ValueError ''Need to set output_dataset_name.''), w)
                      else (Inr (),
                            run_pipeline
                              [write_outputs,
                               write_summary_string_to_file output_examples
                                 (arg_input_pattern_list known_args)
                                 (arg_output_dataset_name known_args)
                                 (arg_output_pattern_prefix known_args)
                                 output_filename] w))))"

text \<open>The loop \<open># Cleanup\<close>.\<close>

fun cleanup :: "env \<Rightarrow> string list \<Rightarrow> fs \<Rightarrow> fs" where
  "cleanup env [] fs = fs"
| "cleanup env (pattern # rest) fs = cleanup env rest (fold os_remove (glob env fs pattern) fs)"

definition main :: "env \<Rightarrow> string list \<Rightarrow> world \<Rightarrow> (error + unit) \<times> world" where
  "main env argv w =
     (case parse_cmdline env argv of
        Inl e \<Rightarrow> (Inl e, w)
      | Inr (known_args, pipeline_args) \<Rightarrow>
          (case prepartition_files env known_args pipeline_args w of
             (Inl e, w1) \<Rightarrow> (Inl e, w1)
           | (Inr input_files, w1) \<Rightarrow>
               (case shuffle_each_partition env known_args (enumerate 0 input_files) [] w1 of
                  (Inl e, w2) \<Rightarrow> (Inl e, w2)
                | (Inr output_patterns, w2) \<Rightarrow>
                    (case combine_shuffled_partitions env known_args output_patterns w2 of
                       (Inl e, w3) \<Rightarrow> (Inl e, w3)
                     | (Inr u, w3) \<Rightarrow>
                         (Inr (), w3\<lparr>files := cleanup env output_patterns (files w3)\<rparr>)))))"

section \<open>Notions used in the statements\<close>


text \<open>
  For the statements below: the pattern that the loop forms for the shuffled shards of
  partition \<open>i\<close>, which is the prefix of that pipeline's sink followed by the shard
  wildcards.
\<close>

definition intermediate_pattern :: "string \<Rightarrow> nat \<Rightarrow> string" where
  "intermediate_pattern prefix i =
     (prefix @ ''_partition'' @ str_nat i) @ ''-?????-of-?????.tfrecord.gz''"



section \<open>Concrete collaborators for evaluation\<close>

text \<open>
  A file-name matcher with \<open>?\<close> (one character) and \<open>*\<close> (any run of characters),
  neither matching a path separator; a namespace; and an environment built from them,
  with the toy digest in place of both hashes, a parser that returns a given
  namespace, groups emitted in the order the grouping lists them and one shard per sink.
\<close>

fun glob_match :: "string \<Rightarrow> string \<Rightarrow> bool" where
  "glob_match [] [] = True"
| "glob_match [] (c # cs) = False"
| "glob_match (p # ps) [] = (p = CHR ''*'' \<and> glob_match ps [])"
| "glob_match (p # ps) (c # cs) =
     (if p = CHR ''*'' then glob_match ps (c # cs) \<or> (c \<noteq> CHR ''/'' \<and> glob_match (p # ps) cs)
      else if p = CHR ''?'' then c \<noteq> CHR ''/'' \<and> glob_match ps cs
      else p = c \<and> glob_match ps cs)"

definition toy_args :: known_args where
  "toy_args =
     \<lparr>arg_input_pattern_list = Some ''in.tfrecord.gz'',
      arg_output_pattern_prefix = Some ''out'',
      arg_output_dataset_config_pbtxt = None,
      arg_output_dataset_name = None,
      arg_num_buckets = 1,
      arg_pre_partition = False,
      arg_pre_partition_workdir = None,
      arg_debug = False\<rparr>"

definition toy_env :: "known_args \<Rightarrow> env" where
  "toy_env known_args =
     \<lparr>hashlib_blake2b = toy_digest,
      hashlib_sha1 = toy_digest 20,
      parse_known_args = (\<lambda>argv. Inr (known_args, [])),
      fnmatch = glob_match,
      group_order = [],
      num_shards = 1\<rparr>"

text \<open>
  The same environment with a parser whose namespace differs between command lines
  in \<open>num_buckets\<close> only: it takes the number of arguments for the number of
  buckets.
\<close>

definition toy_env_counting :: env where
  "toy_env_counting =
     (toy_env toy_args)
       \<lparr>parse_known_args := (\<lambda>argv. Inr (toy_args\<lparr>arg_num_buckets := int (length argv)\<rparr>, []))\<rparr>"

text \<open>The namespace of a run that pre-partitions into two buckets under \<open>w\<close>.\<close>

definition toy_args_pre_partition :: known_args where
  "toy_args_pre_partition =
     toy_args\<lparr>arg_num_buckets := 2, arg_pre_partition := True,
              arg_pre_partition_workdir := Some ''w''\<rparr>"

definition toy_world :: world where
  "toy_world = \<lparr>files = [(''in.tfrecord.gz'', TFRecordFile [[1], [2], [1], [3]])], runs = []\<rparr>"



section \<open>Properties of the hash bucketer\<close>

lemma determine_hash_loop_sum:
  "determine_hash_loop a (enumerate k bs) =
     a + (\<Sum>i<length bs. uint (bs ! i) * 2 ^ ((k + i) * 8))"
proof (induction bs arbitrary: a k)
  case Nil
  then show ?case by simp
next
  case (Cons b bs)
  have "(\<Sum>i<Suc (length bs). uint ((b # bs) ! i) * 2 ^ ((k + i) * 8)) =
        uint b * 2 ^ (k * 8) + (\<Sum>i<length bs. uint (bs ! i) * 2 ^ ((Suc k + i) * 8))"
    by (simp add: sum.lessThan_Suc_shift ac_simps del: sum.lessThan_Suc)
  then show ?case using Cons.IH [of "a + uint b * 2 ^ (k * 8)" "Suc k"] by simp
qed

lemma determine_hash_little_endian:
  "determine_hash h r = little_endian_uint (h 4 r)"
proof -
  have "(2::int) ^ (i * 8) = (2 ^ 8) ^ i" for i
    by (metis mult.commute power_mult)
  then have "(2::int) ^ (i * 8) = 256 ^ i" for i
    by simp
  then show ?thesis
    by (simp add: determine_hash_def little_endian_uint_def determine_hash_loop_sum)
qed

text \<open>
  C3.  For every record \<open>r\<close> and every \<open>num_buckets \<ge> 1\<close>, \<open>partition\<close> returns the
  digest of \<open>r\<close> (the digest of size 4), read as a little-endian unsigned integer,
  modulo \<open>num_buckets\<close>; the bucket lies in \<open>[0, num_buckets)\<close>; and with one bucket
  it is 0.  The result is a function of the arguments and of the digest function only,
  so repeated calls agree.
\<close>

theorem partition_bucket_spec:
  "1 \<le> num_buckets \<Longrightarrow>
     partition_py h r num_buckets = Inr (little_endian_uint (h 4 r) mod num_buckets)
     \<and> 0 \<le> little_endian_uint (h 4 r) mod num_buckets
     \<and> little_endian_uint (h 4 r) mod num_buckets < num_buckets
     \<and> partition_py h r 1 = Inr 0"
  by (simp add: partition_py_def determine_hash_little_endian)

theorem partition_bucket_spec_witness:
  "(1::int) \<le> 3
   \<and> partition_py toy_digest [7, 1] 3 = Inr (little_endian_uint (toy_digest 4 [7, 1]) mod 3)
   \<and> partition_py toy_digest [7, 1] 3 = Inr 2
   \<and> partition_py toy_digest [7, 1] 1 = Inr 0"
proof -
  have v: "little_endian_uint (toy_digest 4 [7, 1]) = 263"
    by code_simp
  show ?thesis
    using partition_bucket_spec [of 3 toy_digest "[7, 1]"] by (simp add: v)
qed

section \<open>Properties of the randomizing shuffler\<close>

lemma mset_permute: "mset (permute cs xs) = mset xs"
proof (induction cs xs rule: permute.induct)
  case (3 c cs x xs)
  define ys where "ys = x # xs"
  define i where "i = c mod length ys"
  have i: "i < length ys" by (simp add: i_def ys_def)
  have split: "ys = take i ys @ ys ! i # drop (Suc i) ys"
    using id_take_nth_drop [OF i] .
  have ih: "mset (permute cs (take i ys @ drop (Suc i) ys)) = mset (take i ys @ drop (Suc i) ys)"
    using 3 [of i] by (simp add: i_def ys_def)
  have "permute (c # cs) (x # xs) = ys ! i # permute cs (take i ys @ drop (Suc i) ys)"
    by (simp add: Let_def i_def ys_def)
  then have "mset (permute (c # cs) (x # xs)) = add_mset (ys ! i) (mset (take i ys @ drop (Suc i) ys))"
    using ih by simp
  also have "\<dots> = mset (take i ys @ ys ! i # drop (Suc i) ys)"
    by simp
  also have "\<dots> = mset ys"
    using split by simp
  finally show ?case by (simp add: ys_def)
qed simp_all

lemma mset_concat_group_skip:
  "k0 \<notin> set ks \<Longrightarrow>
   concat (map (\<lambda>k. if k0 = k then v0 # f k else f k) ks) = concat (map f ks)"
  by (induction ks) auto

lemma mset_concat_group_step:
  "distinct ks \<Longrightarrow> k0 \<in> set ks \<Longrightarrow>
   mset (concat (map (\<lambda>k. if k0 = k then v0 # f k else f k) ks)) =
     add_mset v0 (mset (concat (map f ks)))"
  by (induction ks) (auto simp: mset_concat_group_skip)

lemma mset_concat_group_values:
  "distinct ks \<Longrightarrow> set (map fst kvs) \<subseteq> set ks \<Longrightarrow>
   mset (concat (map (group_values kvs) ks)) = mset (map snd kvs)"
proof (induction kvs)
  case Nil
  then show ?case by (simp add: group_values_def)
next
  case (Cons kv kvs)
  have "group_values (kv # kvs) = (\<lambda>k. if fst kv = k then snd kv # group_values kvs k else group_values kvs k)"
    by (auto simp: group_values_def fun_eq_iff)
  then show ?case using Cons by (simp add: mset_concat_group_step)
qed

lemma elements_shuffle_records:
  "elements (shuffle_records env p) fs =
     concat (map snd (permute (group_order env)
        (map (\<lambda>k. (k, group_values (map (\<lambda>x. (hashlib_sha1 env x, x)) (elements p fs)) k))
             (remdups (map (hashlib_sha1 env) (elements p fs))))))"
  by (simp add: shuffle_records_def beam_FlatMap_def beam_GroupByKey_def beam_Map_def comp_def)

lemma mset_concat_map: "mset (concat (map f xs)) = (\<Sum>x\<in>#mset xs. mset (f x))"
  by (induction xs) simp_all

lemma mset_concat_map_cong: "mset xs = mset ys \<Longrightarrow> mset (concat (map f xs)) = mset (concat (map f ys))"
  by (simp add: mset_concat_map)

text \<open>
  C2.  For every input collection, including the empty one and ones with duplicate
  records, the collection that \<open>shuffle_records\<close> yields holds the same records with
  the same multiplicities: nothing is lost, nothing is duplicated, and equal records
  stay separate occurrences.  This holds for every digest function and every order in
  which the runner emits the groups.
\<close>

theorem shuffle_records_multiset:
  "mset (elements (shuffle_records env p) fs) = mset (elements p fs)"
proof -
  define kvs where "kvs = map (\<lambda>x. (hashlib_sha1 env x, x)) (elements p fs)"
  define ks where "ks = remdups (map fst kvs)"
  define gs where "gs = map (\<lambda>k. (k, group_values kvs k)) ks"
  have e: "elements (shuffle_records env p) fs = concat (map snd (permute (group_order env) gs))"
    by (simp add: elements_shuffle_records gs_def ks_def kvs_def comp_def)
  have "mset (concat (map snd (permute (group_order env) gs))) = mset (concat (map snd gs))"
    by (rule mset_concat_map_cong) (rule mset_permute)
  also have "\<dots> = mset (concat (map (group_values kvs) ks))"
    by (simp add: gs_def comp_def)
  also have "\<dots> = mset (map snd kvs)"
    by (rule mset_concat_group_values) (simp_all add: ks_def)
  also have "\<dots> = mset (elements p fs)"
    by (simp add: kvs_def comp_def)
  finally show ?thesis
    by (simp add: e)
qed










section \<open>Properties of the orchestration\<close>

lemma parse_cmdline_Inr:
  "parse_known_args env argv = Inr (known_args, pipeline_args) \<Longrightarrow>
   \<not> arg_pre_partition known_args \<Longrightarrow>
   parse_cmdline env argv = Inr (known_args, pipeline_args)"
  by (simp add: parse_cmdline_def)

lemma parse_cmdline_assertion:
  "parse_known_args env argv = Inr (known_args, pipeline_args) \<Longrightarrow>
   arg_pre_partition known_args \<Longrightarrow>
   arg_pre_partition_workdir known_args = None \<or> arg_num_buckets known_args \<le> 0 \<Longrightarrow>
   \<exists>msg. parse_cmdline env argv = Inl (AssertionError msg)"
  by (auto simp: parse_cmdline_def)

text \<open>
  C8.  On a command line that requests pre-partitioning, \<open>parse_cmdline\<close> fails with
  an assertion error when no working directory is given or the number of buckets is
  zero or negative, and \<open>main\<close> then ends with that error in the state it started in:
  no file is touched and no pipeline runs.  When pre-partitioning is not requested the
  namespace is returned as parsed, whatever the two flags hold.
\<close>

theorem parse_cmdline_pre_partition_checks:
  "parse_known_args env argv = Inr (known_args, pipeline_args) \<Longrightarrow>
     (arg_pre_partition known_args
        \<and> (arg_pre_partition_workdir known_args = None \<or> arg_num_buckets known_args \<le> 0)
      \<longrightarrow> (\<exists>msg. parse_cmdline env argv = Inl (AssertionError msg)
                 \<and> main env argv w = (Inl (AssertionError msg), w)))
     \<and> (\<not> arg_pre_partition known_args
          \<longrightarrow> parse_cmdline env argv = Inr (known_args, pipeline_args))"
proof (intro conjI impI)
  assume p: "parse_known_args env argv = Inr (known_args, pipeline_args)"
  {
    assume "arg_pre_partition known_args
        \<and> (arg_pre_partition_workdir known_args = None \<or> arg_num_buckets known_args \<le> 0)"
    then obtain msg where m: "parse_cmdline env argv = Inl (AssertionError msg)"
      using parse_cmdline_assertion [OF p] by blast
    then have "main env argv w = (Inl (AssertionError msg), w)"
      by (simp add: main_def)
    with m show "\<exists>msg. parse_cmdline env argv = Inl (AssertionError msg)
                 \<and> main env argv w = (Inl (AssertionError msg), w)"
      by blast
  }
  {
    assume "\<not> arg_pre_partition known_args"
    then show "parse_cmdline env argv = Inr (known_args, pipeline_args)"
      using p by (rule parse_cmdline_Inr [rotated])
  }
qed

theorem parse_cmdline_pre_partition_checks_witness:
  "(\<exists>msg. parse_cmdline (toy_env (toy_args\<lparr>arg_pre_partition := True\<rparr>)) [] = Inl (AssertionError msg)
       \<and> main (toy_env (toy_args\<lparr>arg_pre_partition := True\<rparr>)) [] toy_world
           = (Inl (AssertionError msg), toy_world))
   \<and> (\<exists>msg. parse_cmdline (toy_env (toy_args\<lparr>arg_pre_partition := True,
             arg_pre_partition_workdir := Some ''w'', arg_num_buckets := 0\<rparr>)) []
         = Inl (AssertionError msg))
   \<and> parse_cmdline (toy_env (toy_args\<lparr>arg_pre_partition_workdir := Some ''w'', arg_num_buckets := 0\<rparr>)) []
       = Inr (toy_args\<lparr>arg_pre_partition_workdir := Some ''w'', arg_num_buckets := 0\<rparr>, [])"
proof -
  have p: "parse_known_args (toy_env a) [] = Inr (a, [])" for a
    by (simp add: toy_env_def)
  have 1: "\<exists>msg. parse_cmdline (toy_env (toy_args\<lparr>arg_pre_partition := True\<rparr>)) [] = Inl (AssertionError msg)
       \<and> main (toy_env (toy_args\<lparr>arg_pre_partition := True\<rparr>)) [] toy_world
           = (Inl (AssertionError msg), toy_world)"
    using parse_cmdline_pre_partition_checks [OF p, of "toy_args\<lparr>arg_pre_partition := True\<rparr>" toy_world]
    by (simp add: toy_args_def)
  have 2: "\<exists>msg. parse_cmdline (toy_env (toy_args\<lparr>arg_pre_partition := True,
             arg_pre_partition_workdir := Some ''w'', arg_num_buckets := 0\<rparr>)) []
         = Inl (AssertionError msg)"
    using parse_cmdline_pre_partition_checks [OF p, of "toy_args\<lparr>arg_pre_partition := True,
             arg_pre_partition_workdir := Some ''w'', arg_num_buckets := 0\<rparr>" toy_world]
    by (auto simp: toy_args_def)
  have 3: "parse_cmdline (toy_env (toy_args\<lparr>arg_pre_partition_workdir := Some ''w'', arg_num_buckets := 0\<rparr>)) []
       = Inr (toy_args\<lparr>arg_pre_partition_workdir := Some ''w'', arg_num_buckets := 0\<rparr>, [])"
    using parse_cmdline_pre_partition_checks [OF p, of "toy_args\<lparr>arg_pre_partition_workdir := Some ''w'', arg_num_buckets := 0\<rparr>" toy_world]
    by (simp add: toy_args_def)
  show ?thesis using 1 2 3 by blast
qed

lemma fold_write_node_keeps:
  "e \<in> set fs \<Longrightarrow> fst e \<notin> fst ` set entries \<Longrightarrow> e \<in> set (fold write_node entries fs)"
  by (induction entries arbitrary: fs) (auto simp: write_node_def os_remove_def)

lemma shard_name_longer: "length file_path_prefix < length (shard_name file_path_prefix j n suffix)"
  by (simp add: shard_name_def)

lemma partition_shard_not_workdir:
  "shard_name (os_path_join working_directory (''partition'' @ z)) j n suffix \<noteq> working_directory"
proof -
  have "length working_directory \<le> length (os_path_join working_directory (''partition'' @ z))"
    by (simp add: os_path_join_def)
  then have "length working_directory
      < length (shard_name (os_path_join working_directory (''partition'' @ z)) j n suffix)"
    using shard_name_longer le_less_trans by blast
  then show ?thesis by auto
qed

lemma write_sink_paths:
  "entry \<in> set (sink_output (beam_WriteToTFRecord env label file_path_prefix suffix p) fs) \<Longrightarrow>
   \<exists>j n. fst entry = shard_name file_path_prefix j n suffix"
  by (fastforce simp: beam_WriteToTFRecord_def Let_def)

lemma run_pipeline_runs: "runs (run_pipeline sinks w) = runs w @ [remdups (concat (map sink_steps sinks))]"
  by (simp add: run_pipeline_def)

lemma run_pipeline_files:
  "files (run_pipeline sinks w) =
     fold write_node (concat (map (\<lambda>s. sink_output s (files w)) sinks)) (files w)"
  by (simp add: run_pipeline_def)

text \<open>
  C4.  When the working directory path already exists, \<open>pre_partition\<close> raises the
  configuration error and leaves the state as it was: no file is created or
  overwritten and no pipeline has run.  When the path does not exist, the directory
  is created and the partitioning pipeline runs.
\<close>

theorem pre_partition_working_directory:
  "(os_path_exists (files w) working_directory \<longrightarrow>
      pre_partition env input_pattern working_directory pipeline_args num_buckets w =
        (Inl (ValueError ''Provide a clean working directory path directory''), w))
   \<and> (\<not> os_path_exists (files w) working_directory \<longrightarrow>
        (\<exists>filenames w'.
           pre_partition env input_pattern working_directory pipeline_args num_buckets w =
             (Inr filenames, w')
           \<and> (working_directory, Directory) \<in> set (files w')
           \<and> length (runs w') = Suc (length (runs w))))"
proof (intro conjI impI)
  assume "os_path_exists (files w) working_directory"
  then show "pre_partition env input_pattern working_directory pipeline_args num_buckets w =
        (Inl (ValueError ''Provide a clean working directory path directory''), w)"
    by (simp add: pre_partition_def)
next
  assume fresh: "\<not> os_path_exists (files w) working_directory"
  define w1 where "w1 = w\<lparr>files := os_makedirs (files w) working_directory\<rparr>"
  define writes where "writes =
     map (\<lambda>(i, p).
            beam_WriteToTFRecord env (''WritePartition'' @ str_nat i)
              (os_path_join working_directory (''partition'' @ zero_pad 4 i))
              ''.tfrecord.gz'' p)
         (enumerate 0 (beam_Partition ''PrePartition'' (partition_py (hashlib_blake2b env))
                num_buckets (read_from_tfrecords_files env input_pattern)))"
  define w2 where "w2 = run_pipeline writes w1"
  have res: "pre_partition env input_pattern working_directory pipeline_args num_buckets w =
      (Inr (glob env (files w2)
              (os_path_join working_directory ''partition????-00000-of-00001.tfrecord.gz'')), w2)"
    using fresh by (simp add: pre_partition_def Let_def w2_def writes_def w1_def)
  have d1: "(working_directory, Directory) \<in> set (files w1)"
    by (simp add: w1_def os_makedirs_def write_node_def)
  have paths: "fst entry \<noteq> working_directory"
    if "entry \<in> set (concat (map (\<lambda>s. sink_output s (files w1)) writes))" for entry
  proof -
    from that obtain s where s: "s \<in> set writes" and e: "entry \<in> set (sink_output s (files w1))"
      by auto
    from s obtain label z p where
      "s = beam_WriteToTFRecord env label
             (os_path_join working_directory (''partition'' @ z)) ''.tfrecord.gz'' p"
      by (auto simp: writes_def)
    with e obtain j n where
      "fst entry = shard_name (os_path_join working_directory (''partition'' @ z)) j n ''.tfrecord.gz''"
      using write_sink_paths by blast
    then show ?thesis using partition_shard_not_workdir by simp
  qed
  have "(working_directory, Directory) \<in> set (files w2)"
    unfolding w2_def run_pipeline_files
    by (rule fold_write_node_keeps [OF d1]) (use paths in force)
  moreover have "length (runs w2) = Suc (length (runs w))"
    by (simp add: w2_def run_pipeline_runs w1_def)
  ultimately show "\<exists>filenames w'.
           pre_partition env input_pattern working_directory pipeline_args num_buckets w =
             (Inr filenames, w')
           \<and> (working_directory, Directory) \<in> set (files w')
           \<and> length (runs w') = Suc (length (runs w))"
    using res by blast
qed

theorem pre_partition_working_directory_witness:
  "pre_partition (toy_env toy_args) [''in.tfrecord.gz''] ''in.tfrecord.gz'' [] 2 toy_world =
      (Inl (ValueError ''Provide a clean working directory path directory''), toy_world)
   \<and> (\<exists>filenames w'.
         pre_partition (toy_env toy_args) [''in.tfrecord.gz''] ''w'' [] 2 toy_world = (Inr filenames, w')
         \<and> (''w'', Directory) \<in> set (files w')
         \<and> length (runs w') = Suc (length (runs toy_world)))"
proof -
  have 1: "os_path_exists (files toy_world) ''in.tfrecord.gz''"
    by (simp add: os_path_exists_def toy_world_def)
  have 2: "\<not> os_path_exists (files toy_world) ''w''"
    by (simp add: os_path_exists_def toy_world_def)
  show ?thesis
    using 1 2
      pre_partition_working_directory
        [of toy_world "''in.tfrecord.gz''" "toy_env toy_args" "[''in.tfrecord.gz'']" "[]" 2]
      pre_partition_working_directory
        [of toy_world "''w''" "toy_env toy_args" "[''in.tfrecord.gz'']" "[]" 2]
    by blast
qed

lemma prepartition_files_num_buckets:
  "\<not> arg_pre_partition known_args \<Longrightarrow>
   prepartition_files env (known_args\<lparr>arg_num_buckets := n\<rparr>) pipeline_args w =
     prepartition_files env known_args pipeline_args w"
  by (simp add: prepartition_files_def)

lemma shuffle_each_partition_num_buckets:
  "shuffle_each_partition env (known_args\<lparr>arg_num_buckets := n\<rparr>) input_files output_patterns w =
     shuffle_each_partition env known_args input_files output_patterns w"
proof (induction input_files arbitrary: output_patterns w)
  case Nil
  then show ?case by simp
next
  case (Cons a input_files)
  obtain i filename where a: "a = (i, filename)" by (cases a)
  show ?case
    unfolding a by (simp add: Cons.IH Let_def split: option.splits)
qed

lemma combine_shuffled_partitions_num_buckets:
  "combine_shuffled_partitions env (known_args\<lparr>arg_num_buckets := n\<rparr>) output_patterns w =
     combine_shuffled_partitions env known_args output_patterns w"
  by (simp add: combine_shuffled_partitions_def Let_def split: option.splits)

text \<open>
  C10.  Two command lines whose namespaces differ in \<open>num_buckets\<close> only, with
  pre-partitioning not requested, give the same run: the same result or error, the
  same files (the manifest among them) and the same pipelines, on every file system.
\<close>

theorem main_ignores_num_buckets:
  "parse_known_args env argv1 = Inr (known_args, pipeline_args) \<Longrightarrow>
   parse_known_args env argv2 = Inr (known_args\<lparr>arg_num_buckets := n\<rparr>, pipeline_args) \<Longrightarrow>
   \<not> arg_pre_partition known_args \<Longrightarrow>
   main env argv1 w = main env argv2 w"
proof -
  assume p1: "parse_known_args env argv1 = Inr (known_args, pipeline_args)"
    and p2: "parse_known_args env argv2 = Inr (known_args\<lparr>arg_num_buckets := n\<rparr>, pipeline_args)"
    and npp: "\<not> arg_pre_partition known_args"
  have c1: "parse_cmdline env argv1 = Inr (known_args, pipeline_args)"
    using p1 npp by (rule parse_cmdline_Inr)
  have c2: "parse_cmdline env argv2 = Inr (known_args\<lparr>arg_num_buckets := n\<rparr>, pipeline_args)"
    using p2 npp by (intro parse_cmdline_Inr) simp_all
  show ?thesis
    by (simp add: main_def c1 c2 prepartition_files_num_buckets [OF npp]
          shuffle_each_partition_num_buckets combine_shuffled_partitions_num_buckets
        split: prod.splits sum.splits)
qed

theorem main_ignores_num_buckets_witness:
  "parse_known_args toy_env_counting [] = Inr (toy_args\<lparr>arg_num_buckets := 0\<rparr>, [])
   \<and> parse_known_args toy_env_counting [''--num_buckets'', ''2'']
        = Inr (toy_args\<lparr>arg_num_buckets := 0, arg_num_buckets := 2\<rparr>, [])
   \<and> \<not> arg_pre_partition (toy_args\<lparr>arg_num_buckets := 0\<rparr>)
   \<and> main toy_env_counting [] toy_world = main toy_env_counting [''--num_buckets'', ''2''] toy_world"
proof -
  have 1: "parse_known_args toy_env_counting [] = Inr (toy_args\<lparr>arg_num_buckets := 0\<rparr>, [])"
    by (simp add: toy_env_counting_def)
  have 2: "parse_known_args toy_env_counting [''--num_buckets'', ''2'']
        = Inr (toy_args\<lparr>arg_num_buckets := 0, arg_num_buckets := 2\<rparr>, [])"
    by (simp add: toy_env_counting_def)
  have 3: "\<not> arg_pre_partition (toy_args\<lparr>arg_num_buckets := 0\<rparr>)"
    by (simp add: toy_args_def)
  show ?thesis
    using 1 2 3 main_ignores_num_buckets [OF 1 2 3, of toy_world] by simp
qed

text \<open>
  The shape of a successful run: the stages that \<open>main\<close> goes through, with the
  patterns of the intermediate shard sets made explicit.
\<close>

lemma shuffle_each_partition_shape:
  "shuffle_each_partition env known_args (enumerate k input_files) acc w = (Inr pats, w') \<Longrightarrow>
   arg_output_pattern_prefix known_args = Some prefix \<Longrightarrow>
   pats = acc @ map (intermediate_pattern prefix) [k..<k + length input_files]
   \<and> length (runs w') = length (runs w) + length input_files"
proof (induction input_files arbitrary: k acc w)
  case Nil
  then show ?case by simp
next
  case (Cons filename input_files)
  from Cons.prems obtain fname where f: "filename = Some fname"
    by (cases filename) simp_all
  define w1 where "w1 = run_pipeline
     [beam_WriteToTFRecord env ''WriteToTFRecord'' (prefix @ ''_partition'' @ str_nat k) ''.tfrecord.gz''
        (shuffle_records env (read_from_tfrecords_files env (split_on CHR '','' fname)))] w"
  have step: "shuffle_each_partition env known_args (enumerate (Suc k) input_files)
                (acc @ [intermediate_pattern prefix k]) w1 = (Inr pats, w')"
    using Cons.prems by (simp add: f Let_def w1_def intermediate_pattern_def)
  have "pats = (acc @ [intermediate_pattern prefix k])
                 @ map (intermediate_pattern prefix) [Suc k..<Suc k + length input_files]
        \<and> length (runs w') = length (runs w1) + length input_files"
    using Cons.IH [OF step Cons.prems(2)] .
  moreover have "length (runs w1) = Suc (length (runs w))"
    by (simp add: w1_def run_pipeline_runs)
  moreover have "[k..<k + length (filename # input_files)] = k # [Suc k..<Suc k + length input_files]"
    using upt_conv_Cons [of k "Suc (k + length input_files)"] by simp
  ultimately show ?case by simp
qed

lemma prepartition_files_runs:
  "prepartition_files env known_args pipeline_args w = (Inr input_files, w1) \<Longrightarrow>
   length (runs w1) = length (runs w) + (if arg_pre_partition known_args then 1 else 0)"
  by (auto simp: prepartition_files_def pre_partition_def Let_def run_pipeline_runs
           split: if_splits option.splits)

lemma main_success_shape:
  assumes "main env argv w = (Inr (), w')"
    and "parse_known_args env argv = Inr (known_args, pipeline_args)"
  shows "\<exists>prefix input_files w1 w2 w3.
     arg_output_pattern_prefix known_args = Some prefix
     \<and> prepartition_files env known_args pipeline_args w = (Inr input_files, w1)
     \<and> shuffle_each_partition env known_args (enumerate 0 input_files) [] w1
          = (Inr (map (intermediate_pattern prefix) [0..<length input_files]), w2)
     \<and> combine_shuffled_partitions env known_args
          (map (intermediate_pattern prefix) [0..<length input_files]) w2 = (Inr (), w3)
     \<and> w' = w3\<lparr>files := cleanup env (map (intermediate_pattern prefix) [0..<length input_files])
                            (files w3)\<rparr>"
proof -
  from assms have pc: "parse_cmdline env argv = Inr (known_args, pipeline_args)"
    by (auto simp: main_def parse_cmdline_def split: if_splits)
  from assms(1) pc obtain input_files w1 where
    pf: "prepartition_files env known_args pipeline_args w = (Inr input_files, w1)"
    by (auto simp: main_def split: prod.splits sum.splits)
  from assms(1) pc pf obtain pats w2 where
    sh: "shuffle_each_partition env known_args (enumerate 0 input_files) [] w1 = (Inr pats, w2)"
    by (auto simp: main_def split: prod.splits sum.splits)
  from assms(1) pc pf sh obtain w3 where
    cb: "combine_shuffled_partitions env known_args pats w2 = (Inr (), w3)"
    and w': "w' = w3\<lparr>files := cleanup env pats (files w3)\<rparr>"
    by (auto simp: main_def split: prod.splits sum.splits)
  from cb obtain prefix where pre: "arg_output_pattern_prefix known_args = Some prefix"
    by (auto simp: combine_shuffled_partitions_def Let_def split: option.splits)
  have "pats = map (intermediate_pattern prefix) [0..<length input_files]"
    using shuffle_each_partition_shape [OF sh pre] by simp
  then show ?thesis using pre pf sh cb w' by blast
qed

text \<open>
  Cleanup removes exactly the entries whose path matches one of the intermediate
  patterns.
\<close>

lemma fold_os_remove:
  "fold os_remove xs fs = filter (\<lambda>entry. fst entry \<notin> set xs) fs"
proof (induction xs arbitrary: fs)
  case Nil
  then show ?case by simp
next
  case (Cons x xs)
  have "fold os_remove (x # xs) fs = filter (\<lambda>entry. fst entry \<notin> set xs) (os_remove x fs)"
    by (simp add: Cons.IH)
  also have "\<dots> = filter (\<lambda>entry. fst entry \<notin> set (x # xs)) fs"
    unfolding os_remove_def filter_filter by (rule filter_cong) auto
  finally show ?case .
qed

lemma cleanup_step:
  "fold os_remove (glob env fs pattern) fs = filter (\<lambda>entry. \<not> fnmatch env pattern (fst entry)) fs"
  unfolding fold_os_remove glob_def
  by (rule filter_cong) auto

lemma cleanup_filter:
  "cleanup env patterns fs =
     filter (\<lambda>entry. \<not> list_ex (\<lambda>pattern. fnmatch env pattern (fst entry)) patterns) fs"
proof (induction patterns arbitrary: fs)
  case Nil
  then show ?case by simp
next
  case (Cons pattern patterns)
  show ?case
    unfolding cleanup.simps cleanup_step Cons.IH
    by (auto intro: filter_cong)
qed

lemma glob_cleanup:
  "pattern \<in> set patterns \<Longrightarrow> glob env (cleanup env patterns fs) pattern = []"
  by (auto simp: glob_def cleanup_filter filter_empty_conv list_ex_iff)

text \<open>
  C6, as amended.  After a successful run, for each of the \<open>n\<close> per-partition shuffle
  pipelines that ran, no file matching the pattern of its shuffled shards
  (\<open>prefix_partition<i>-?????-of-?????.tfrecord.gz\<close>) exists any more.  Nothing is
  said of the hash-partition files in the working directory: cleanup does not look at
  them, as the run below shows.
\<close>

theorem cleanup_removes_shuffled_shards:
  "main env argv w = (Inr (), w') \<Longrightarrow>
   parse_known_args env argv = Inr (known_args, pipeline_args) \<Longrightarrow>
   \<exists>prefix n.
     arg_output_pattern_prefix known_args = Some prefix
     \<and> length (runs w') =
         length (runs w) + (if arg_pre_partition known_args then 1 else 0) + n + 1
     \<and> list_all (\<lambda>i. glob env (files w') (intermediate_pattern prefix i) = []) [0..<n]"
proof -
  assume m: "main env argv w = (Inr (), w')"
    and p: "parse_known_args env argv = Inr (known_args, pipeline_args)"
  from main_success_shape [OF m p] obtain prefix input_files w1 w2 w3 where
    pre: "arg_output_pattern_prefix known_args = Some prefix"
    and pf: "prepartition_files env known_args pipeline_args w = (Inr input_files, w1)"
    and sh: "shuffle_each_partition env known_args (enumerate 0 input_files) [] w1
          = (Inr (map (intermediate_pattern prefix) [0..<length input_files]), w2)"
    and cb: "combine_shuffled_partitions env known_args
          (map (intermediate_pattern prefix) [0..<length input_files]) w2 = (Inr (), w3)"
    and w': "w' = w3\<lparr>files := cleanup env (map (intermediate_pattern prefix) [0..<length input_files])
                            (files w3)\<rparr>"
    by blast
  have r1: "length (runs w1) = length (runs w) + (if arg_pre_partition known_args then 1 else 0)"
    using pf by (rule prepartition_files_runs)
  have r2: "length (runs w2) = length (runs w1) + length input_files"
    using shuffle_each_partition_shape [OF sh pre] by simp
  have r3: "length (runs w3) = Suc (length (runs w2))"
    using cb by (auto simp: combine_shuffled_partitions_def Let_def run_pipeline_runs
                      split: option.splits if_splits)
  have "glob env (files w') (intermediate_pattern prefix i) = []" if "i < length input_files" for i
    unfolding w' using that by (simp add: glob_cleanup)
  then have "list_all (\<lambda>i. glob env (files w') (intermediate_pattern prefix i) = [])
               [0..<length input_files]"
    by (simp add: list_all_iff)
  then show ?thesis
    using pre r1 r2 r3 w' by (intro exI [of _ prefix] exI [of _ "length input_files"]) simp
qed

text \<open>
  A run that pre-partitions into two buckets: it succeeds, the shuffled shards of the
  two partitions are gone, and both hash-partition files are still in the working
  directory.
\<close>

lemma toy_pre_partition_run:
  "map_prod id (\<lambda>w. (map fst (files w), length (runs w)))
     (main (toy_env toy_args_pre_partition) [] toy_world) =
   (Inr (),
    [''in.tfrecord.gz'', ''w'',
     ''w/partition0000-00000-of-00001.tfrecord.gz'',
     ''w/partition0001-00000-of-00001.tfrecord.gz'',
     ''out-00000-of-00001.tfrecord.gz''], 4)"
  by code_simp

theorem cleanup_removes_shuffled_shards_counterexample:
  "fst (main (toy_env toy_args_pre_partition) [] toy_world) = Inr ()
   \<and> os_path_exists (files (snd (main (toy_env toy_args_pre_partition) [] toy_world)))
        ''w/partition0000-00000-of-00001.tfrecord.gz''
   \<and> os_path_exists (files (snd (main (toy_env toy_args_pre_partition) [] toy_world)))
        ''w/partition0001-00000-of-00001.tfrecord.gz''"
proof -
  obtain r w' where m: "main (toy_env toy_args_pre_partition) [] toy_world = (r, w')"
    by (cases "main (toy_env toy_args_pre_partition) [] toy_world")
  show ?thesis
    using toy_pre_partition_run unfolding m by (simp add: os_path_exists_def)
qed

theorem cleanup_removes_shuffled_shards_witness:
  "main (toy_env toy_args_pre_partition) [] toy_world
     = (Inr (), snd (main (toy_env toy_args_pre_partition) [] toy_world))
   \<and> parse_known_args (toy_env toy_args_pre_partition) [] = Inr (toy_args_pre_partition, [])
   \<and> (\<exists>prefix n.
         arg_output_pattern_prefix toy_args_pre_partition = Some prefix
         \<and> length (runs (snd (main (toy_env toy_args_pre_partition) [] toy_world))) =
             length (runs toy_world)
               + (if arg_pre_partition toy_args_pre_partition then 1 else 0) + n + 1
         \<and> list_all (\<lambda>i. glob (toy_env toy_args_pre_partition)
                            (files (snd (main (toy_env toy_args_pre_partition) [] toy_world)))
                            (intermediate_pattern prefix i) = []) [0..<n])"
proof -
  obtain r w' where m: "main (toy_env toy_args_pre_partition) [] toy_world = (r, w')"
    by (cases "main (toy_env toy_args_pre_partition) [] toy_world")
  have r: "r = Inr ()"
    using toy_pre_partition_run unfolding m by simp
  have 1: "main (toy_env toy_args_pre_partition) [] toy_world
     = (Inr (), snd (main (toy_env toy_args_pre_partition) [] toy_world))"
    using m r by simp
  have 2: "parse_known_args (toy_env toy_args_pre_partition) [] = Inr (toy_args_pre_partition, [])"
    by (simp add: toy_env_def)
  show ?thesis
    using 1 2 cleanup_removes_shuffled_shards [OF 1 2] by blast
qed













text \<open>
  C5.  A manifest is requested and no dataset name is given.  The error is raised
  inside the merge block, after the per-partition shuffle pipeline has run and
  written its shards, which cleanup then never removes: the run below ends with the
  error, one executed pipeline and the intermediate shard on the file system.
\<close>

theorem main_missing_dataset_name_runs_stage_a:
  "main (toy_env (toy_args\<lparr>arg_output_dataset_config_pbtxt := Some ''m.pbtxt''\<rparr>)) [] toy_world =
  (Inl (ValueError ''Need to set output_dataset_name.''),
   \<lparr>files =
     [(''in.tfrecord.gz'', TFRecordFile [[1], [2], [1], [3]]),
      (''out_partition0-00000-of-00001.tfrecord.gz'', TFRecordFile [[2], [1], [1], [3]])],
    runs =
      [[(''ReadTFRecordFiles_0[in.tfrecord.gz]'', ReadFromTFRecord ''in.tfrecord.gz''),
        (''Flatten'', Flatten), (''Randomize'', Map),
        (''Groupby'', GroupByKey), (''DropKey'', FlatMap),
        (''WriteToTFRecord'', WriteToTFRecord ''out_partition0'' ''.tfrecord.gz'')]]\<rparr>)"
  by code_simp

section \<open>Properties of the manifest\<close>

lemma split_on_no_sep: "sep \<notin> set a \<Longrightarrow> split_on sep a = [a]"
  by (induction a) auto

lemma split_on_append:
  "sep \<notin> set a \<Longrightarrow> split_on sep (a @ sep # rest) = a # split_on sep rest"
  by (induction a) auto

lemma digit_not_newline: "k < 10 \<Longrightarrow> char_of (48 + k :: nat) \<noteq> CHR 0x0A"
proof
  assume k: "k < 10" and "char_of (48 + k) = CHR 0x0A"
  then have "(of_char (char_of (48 + k)) :: nat) = of_char CHR 0x0A" by simp
  then have "(48 + k) mod 256 = 10" by (simp add: of_char_of)
  then show False using k by simp
qed

lemma str_nat_no_newline: "CHR 0x0A \<notin> set (str_nat n)"
proof (induction n rule: str_nat.induct)
  case (1 n)
  show ?case
  proof (cases "n < 10")
    case True
    then show ?thesis using digit_not_newline [of n] by (subst str_nat.simps) auto
  next
    case False
    then show ?thesis using 1 digit_not_newline [of "n mod 10"] by (subst str_nat.simps) auto
  qed
qed

lemma MakeConfigStringCaller_text:
  assumes name: "CHR 0x0A \<notin> set name" and tfrecord_path: "CHR 0x0A \<notin> set tfrecord_path"
  shows \<open>MakeConfigStringCaller (Some name) (Some tfrecord_path) num_examples =
     ''\<newline>name: "'' @ name
     @ ''"\<newline>tfrecord_path: "'' @ tfrecord_path
     @ ''-?????-of-?????.tfrecord.gz"\<newline>num_examples: '' @ str_nat num_examples
     @ ''\<newline>''\<close>
proof -
  define l1 where \<open>l1 = ''    name: "'' @ name @ ''"''\<close>
  define l2 where \<open>l2 = ''    tfrecord_path: "'' @ tfrecord_path @ ''-?????-of-?????.tfrecord.gz"''\<close>
  define l3 where \<open>l3 = ''    num_examples: '' @ str_nat num_examples\<close>
  have n1: "CHR 0x0A \<notin> set l1" using name by (simp add: l1_def)
  have n2: "CHR 0x0A \<notin> set l2" using tfrecord_path by (simp add: l2_def)
  have n3: "CHR 0x0A \<notin> set l3" using str_nat_no_newline by (simp add: l3_def)
  have tmpl: \<open>''\<newline>    name: "'' @ format_arg (Some name)
             @ ''"\<newline>    tfrecord_path: "'' @ format_arg (Some tfrecord_path)
             @ ''-?????-of-?????.tfrecord.gz"\<newline>    num_examples: ''
             @ str_nat num_examples
             @ ''\<newline>    '' =
        CHR 0x0A # l1 @ CHR 0x0A # l2 @ CHR 0x0A # l3 @ CHR 0x0A # ''    ''\<close>
    by (simp add: l1_def l2_def l3_def)
  have s4: "split_on CHR 0x0A ''    '' = [''    '']"
    by simp
  have s3: "split_on CHR 0x0A (l3 @ CHR 0x0A # ''    '') = [l3, ''    '']"
    by (simp only: split_on_append [OF n3] s4)
  have s2: "split_on CHR 0x0A (l2 @ CHR 0x0A # l3 @ CHR 0x0A # ''    '') = [l2, l3, ''    '']"
    by (simp only: split_on_append [OF n2] s3)
  have s1: "split_on CHR 0x0A (l1 @ CHR 0x0A # l2 @ CHR 0x0A # l3 @ CHR 0x0A # ''    '')
      = [l1, l2, l3, ''    '']"
    by (simp only: split_on_append [OF n1] s2)
  have lines: "split_on CHR 0x0A (CHR 0x0A # l1 @ CHR 0x0A # l2 @ CHR 0x0A # l3 @ CHR 0x0A # ''    '')
      = [[], l1, l2, l3, ''    '']"
    by (simp add: s1)
  have b1: "\<not> list_all is_blank_or_tab l1" by (simp add: l1_def is_blank_or_tab_def)
  have b2: "\<not> list_all is_blank_or_tab l2" by (simp add: l2_def is_blank_or_tab_def)
  have b3: "\<not> list_all is_blank_or_tab l3" by (simp add: l3_def is_blank_or_tab_def)
  have b4: "list_all is_blank_or_tab ''    ''" by (simp add: is_blank_or_tab_def)
  have e1: "l1 \<noteq> []" "l2 \<noteq> []" "l3 \<noteq> []" by (simp_all add: l1_def l2_def l3_def)
  have i1: "takeWhile is_blank_or_tab l1 = ''    ''" by (simp add: l1_def is_blank_or_tab_def)
  have i2: "takeWhile is_blank_or_tab l2 = ''    ''" by (simp add: l2_def is_blank_or_tab_def)
  have i3: "takeWhile is_blank_or_tab l3 = ''    ''" by (simp add: l3_def is_blank_or_tab_def)
  have sw: "starts_with l1 ''    ''" "starts_with l2 ''    ''" "starts_with l3 ''    ''"
    by (simp_all add: l1_def l2_def l3_def)
  have d1: \<open>drop 4 l1 = ''name: "'' @ name @ ''"''\<close> by (simp add: l1_def)
  have d2: \<open>drop 4 l2 = ''tfrecord_path: "'' @ tfrecord_path @ ''-?????-of-?????.tfrecord.gz"''\<close>
    by (simp add: l2_def)
  have d3: \<open>drop 4 l3 = ''num_examples: '' @ str_nat num_examples\<close> by (simp add: l3_def)
  have "dedent (CHR 0x0A # l1 @ CHR 0x0A # l2 @ CHR 0x0A # l3 @ CHR 0x0A # ''    '')
      = join_with [CHR 0x0A] [[], drop 4 l1, drop 4 l2, drop 4 l3, []]"
    unfolding dedent_def lines
    by (simp add: b1 b2 b3 b4 e1 i1 i2 i3 sw Let_def is_blank_or_tab_def numeral_eq_Suc)
  then show ?thesis
    unfolding MakeConfigStringCaller_def tmpl by (simp add: d1 d2 d3)
qed

lemma sum_length_filter_classes:
  "(\<And>x. x \<in> set ys \<Longrightarrow> f x < (n::nat)) \<Longrightarrow>
   (\<Sum>j<n. length (filter (\<lambda>x. f x = j) ys)) = length ys"
proof (induction ys)
  case Nil
  then show ?case by simp
next
  case (Cons y ys)
  have fy: "f y < n" using Cons.prems by simp
  have "(\<Sum>j<n. length (filter (\<lambda>x. f x = j) (y # ys))) =
        (\<Sum>j<n. (if j = f y then 1 else 0) + length (filter (\<lambda>x. f x = j) ys))"
    by (intro sum.cong) auto
  also have "\<dots> = (\<Sum>j<n. if j = f y then 1 else 0) + (\<Sum>j<n. length (filter (\<lambda>x. f x = j) ys))"
    by (simp add: sum.distrib)
  also have "(\<Sum>j<n. if j = f y then 1 else 0) = (1::nat)"
    using fy by (simp add: sum.delta)
  also have "(\<Sum>j<n. length (filter (\<lambda>x. f x = j) ys)) = length ys"
    using Cons by simp
  finally show ?case by simp
qed

lemma shards_hold_all_elements:
  "sum_list (map (\<lambda>entry. length (node_records (snd entry)))
      (sink_output (beam_WriteToTFRecord env label file_path_prefix suffix p) fs))
   = length (elements p fs)"
proof -
  define n where "n = max 1 (num_shards env)"
  have n: "0 < n" by (simp add: n_def)
  have "sum_list (map (\<lambda>entry. length (node_records (snd entry)))
      (sink_output (beam_WriteToTFRecord env label file_path_prefix suffix p) fs))
     = sum_list (map (\<lambda>j. length (shard_elements n j (elements p fs))) [0..<n])"
    by (simp add: beam_WriteToTFRecord_def Let_def n_def comp_def)
  also have "\<dots> = (\<Sum>j<n. length (shard_elements n j (elements p fs)))"
    by (simp add: interv_sum_list_conv_sum_set_nat atLeast0LessThan)
  also have "\<dots> = (\<Sum>j<n. length (filter (\<lambda>ix. fst ix mod n = j) (enumerate 0 (elements p fs))))"
    by (simp add: shard_elements_def)
  also have "\<dots> = length (enumerate 0 (elements p fs))"
    using n by (intro sum_length_filter_classes) simp
  finally show ?thesis by simp
qed

lemma write_summary_output:
  "sink_output (write_summary_string_to_file output_examples input_pattern_list dataset_name
       output_pattern_prefix output_filename) fs =
     [(output_filename,
       TextFile [COMMENT_HEADER_format input_pattern_list output_pattern_prefix
                 @ MakeConfigStringCaller dataset_name output_pattern_prefix
                     (length (elements output_examples fs))])]"
  by (simp add: write_summary_string_to_file_def beam_WriteToText_def beam_CombineGlobally_def
        beam_Flatten_def beam_Map_def beam_Count_Globally_def beam_Create_def Let_def)

lemma write_summary_counts:
  "(''CountOutputExamples'', CountGlobally)
     \<in> set (sink_steps (write_summary_string_to_file output_examples input_pattern_list
                dataset_name output_pattern_prefix output_filename))"
  by (simp add: write_summary_string_to_file_def beam_WriteToText_def beam_CombineGlobally_def
        beam_Flatten_def beam_Map_def beam_Count_Globally_def beam_Create_def Let_def)

text \<open>
  C7.  For every final output collection, of any size, the manifest written by
  \<open>write_summary_string_to_file\<close> is one text element: the header, which echoes the
  input pattern list and the output prefix, followed by the trailer that
  \<open>MakeConfigStringCaller\<close> builds from the dataset name, the output prefix with the
  shard wildcards left as they are, and the number of elements of the collection.
  The number comes from the \<open>CountOutputExamples\<close> step, a global count, and equals
  the number of records in the shards that the sink of the same collection writes.
  For a name and a prefix without line breaks the text is spelled out.
\<close>

theorem manifest_contents:
  \<open>sink_output (write_summary_string_to_file output_examples input_pattern_list dataset_name
       output_pattern_prefix output_filename) fs =
     [(output_filename,
       TextFile [COMMENT_HEADER_format input_pattern_list output_pattern_prefix
                 @ MakeConfigStringCaller dataset_name output_pattern_prefix
                     (length (elements output_examples fs))])]
   \<and> (''CountOutputExamples'', CountGlobally)
        \<in> set (sink_steps (write_summary_string_to_file output_examples input_pattern_list
                   dataset_name output_pattern_prefix output_filename))
   \<and> sum_list (map (\<lambda>entry. length (node_records (snd entry)))
        (sink_output (beam_WriteToTFRecord env ''WriteOutputs'' prefix ''.tfrecord.gz''
                        output_examples) fs))
       = length (elements output_examples fs)
   \<and> (CHR 0x0A \<notin> set name \<and> CHR 0x0A \<notin> set prefix \<longrightarrow>
        sink_output (write_summary_string_to_file output_examples (Some inputs) (Some name)
          (Some prefix) output_filename) fs =
        [(output_filename,
          TextFile [''# Generated by shuffle_tfrecords_beam.py\<newline>#\<newline># --input_pattern_list=''
                    @ inputs
                    @ ''\<newline># --output_pattern_prefix='' @ prefix
                    @ ''\<newline>#\<newline>''
                    @ ''\<newline>name: "'' @ name
                    @ ''"\<newline>tfrecord_path: "'' @ prefix
                    @ ''-?????-of-?????.tfrecord.gz"\<newline>num_examples: ''
                    @ str_nat (length (elements output_examples fs))
                    @ ''\<newline>''])])\<close>
  using MakeConfigStringCaller_text [of name prefix "length (elements output_examples fs)"]
  by (simp add: write_summary_output write_summary_counts shards_hold_all_elements
        COMMENT_HEADER_format_def)

lemma str_nat_small: "str_nat 0 = ''0''" "str_nat (Suc (Suc 0)) = ''2''"
  by code_simp+

theorem manifest_contents_witness:
  \<open>CHR 0x0A \<notin> set ''HG001'' \<and> CHR 0x0A \<notin> set ''out''
   \<and> sink_output (write_summary_string_to_file (beam_Create ''records'' [[1], [2]])
          (Some ''in.tfrecord.gz'') (Some ''HG001'') (Some ''out'') ''m.pbtxt'') [] =
        [(''m.pbtxt'',
          TextFile [''# Generated by shuffle_tfrecords_beam.py\<newline>#\<newline># --input_pattern_list=in.tfrecord.gz\<newline># --output_pattern_prefix=out\<newline>#\<newline>\<newline>name: "HG001"\<newline>tfrecord_path: "out-?????-of-?????.tfrecord.gz"\<newline>num_examples: 2\<newline>''])]
   \<and> sink_output (write_summary_string_to_file (beam_Create ''records'' [])
          (Some ''in.tfrecord.gz'') (Some ''HG001'') (Some ''out'') ''m.pbtxt'') [] =
        [(''m.pbtxt'',
          TextFile [''# Generated by shuffle_tfrecords_beam.py\<newline>#\<newline># --input_pattern_list=in.tfrecord.gz\<newline># --output_pattern_prefix=out\<newline>#\<newline>\<newline>name: "HG001"\<newline>tfrecord_path: "out-?????-of-?????.tfrecord.gz"\<newline>num_examples: 0\<newline>''])]\<close>
proof -
  have h: "CHR 0x0A \<notin> set ''HG001'' \<and> CHR 0x0A \<notin> set ''out''"
    by simp
  note two =
    manifest_contents [of "beam_Create ''records'' [[1], [2]]" "Some ''in.tfrecord.gz''"
        "Some ''HG001''" "Some ''out''" "''m.pbtxt''" "[]" "toy_env toy_args" "''out''"
        "''HG001''" "''in.tfrecord.gz''", THEN conjunct2, THEN conjunct2, THEN conjunct2,
        THEN mp, OF h]
  note none =
    manifest_contents [of "beam_Create ''records'' []" "Some ''in.tfrecord.gz''"
        "Some ''HG001''" "Some ''out''" "''m.pbtxt''" "[]" "toy_env toy_args" "''out''"
        "''HG001''" "''in.tfrecord.gz''", THEN conjunct2, THEN conjunct2, THEN conjunct2,
        THEN mp, OF h]
  have l: "length (elements (beam_Create ''records'' [[1], [2] :: bytes]) []) = Suc (Suc 0)"
      "length (elements (beam_Create ''records'' ([] :: bytes list)) []) = 0"
    by (simp_all add: beam_Create_def)
  show ?thesis
    using h two none unfolding l str_nat_small by simp
qed

end
